theory Spec2Isabelle
  imports Complex_Main
begin

section \<open>Python values used by the inference service\<close>

text \<open>
  The service (\<^verbatim>\<open>services/ml-service/app.py\<close>) handles three kinds of values:
  floating-point numbers coming out of the classifier, JSON documents (the request body
  and the metadata file), and exceptions.

  A float is either a finite number or one of the three IEEE special values. The finite
  ones are embedded in the reals; the rounding of an arithmetic result back to
  a float is a parameter of the model (\<open>rnd\<close> below), so nothing here depends on the
  precision of the format.
\<close>

datatype pyfloat = Finite real | PosInf | NegInf | NaN

fun isfinite :: "pyfloat \<Rightarrow> bool" where
  "isfinite (Finite x) = True"
| "isfinite PosInf = False"
| "isfinite NegInf = False"
| "isfinite NaN = False"

text \<open>
  Float addition \<^verbatim>\<open>a + b\<close>: NaN is absorbing, opposite infinities give NaN, an infinity
  absorbs a finite number, and the exact sum of two finite numbers is rounded by \<open>r\<close>
  (which may overflow to an infinity).
\<close>

fun fadd :: "(real \<Rightarrow> pyfloat) \<Rightarrow> pyfloat \<Rightarrow> pyfloat \<Rightarrow> pyfloat" where
  "fadd r (Finite a) (Finite b) = r (a + b)"
| "fadd r NaN y = NaN"
| "fadd r x NaN = NaN"
| "fadd r PosInf NegInf = NaN"
| "fadd r NegInf PosInf = NaN"
| "fadd r PosInf y = PosInf"
| "fadd r x PosInf = PosInf"
| "fadd r NegInf y = NegInf"
| "fadd r x NegInf = NegInf"

text \<open>
  A JSON document as Python's \<^verbatim>\<open>json\<close> module parses it. \<open>JNull\<close> is Python's
  \<^verbatim>\<open>None\<close>; an object is the parsed \<^verbatim>\<open>dict\<close>, kept as an association list.
\<close>

datatype json =
    JNull
  | JBool bool
  | JInt int
  | JFloat pyfloat
  | JStr string
  | JArr "json list"
  | JObj "(string \<times> json) list"

text \<open>
  The exceptions the handlers can meet. \<open>Raised s\<close> is an exception thrown by a
  collaborator (the unpickled artifact, numpy, Flask's request parsing, the file system)
  whose \<^verbatim>\<open>str()\<close> is \<open>s\<close>; the others are raised by the Python operations written in
  the handlers themselves.
\<close>

datatype exn = TypeError | KeyError string | IndexError | AttributeError | Raised string

text \<open>\<^verbatim>\<open>bool(x)\<close>, as used by \<^verbatim>\<open>if model_meta\<close>.\<close>

fun truthy :: "json \<Rightarrow> bool" where
  "truthy JNull = False"
| "truthy (JBool b) = b"
| "truthy (JInt i) = (i \<noteq> 0)"
| "truthy (JFloat x) = (x \<noteq> Finite 0)"
| "truthy (JStr s) = (s \<noteq> [])"
| "truthy (JArr xs) = (xs \<noteq> [])"
| "truthy (JObj kvs) = (kvs \<noteq> [])"

text \<open>\<^verbatim>\<open>x[key]\<close> with a string key: only a dict can be subscripted that way.\<close>

fun subscript :: "json \<Rightarrow> string \<Rightarrow> exn + json" where
  "subscript (JObj kvs) k = (case map_of kvs k of None \<Rightarrow> Inl (KeyError k) | Some v \<Rightarrow> Inr v)"
| "subscript j k = Inl TypeError"

text \<open>\<^verbatim>\<open>x.get(key, default)\<close>: only a dict has the method.\<close>

fun py_get :: "json \<Rightarrow> string \<Rightarrow> json \<Rightarrow> exn + json" where
  "py_get (JObj kvs) k d = (case map_of kvs k of None \<Rightarrow> Inr d | Some v \<Rightarrow> Inr v)"
| "py_get j k d = Inl AttributeError"

text \<open>\<^verbatim>\<open>len(x)\<close>: lists, strings and dicts have a length, the other values raise.\<close>

fun py_len :: "json \<Rightarrow> exn + nat" where
  "py_len (JArr xs) = Inr (length xs)"
| "py_len (JStr s) = Inr (length s)"
| "py_len (JObj kvs) = Inr (length (remdups (map fst kvs)))"
| "py_len j = Inl TypeError"

text \<open>\<^verbatim>\<open>xs[i]\<close> with a non-negative index on a sequence.\<close>

definition index :: "'a list \<Rightarrow> nat \<Rightarrow> exn + 'a" where
  "index xs i = (if i < length xs then Inr (xs ! i) else Inl IndexError)"

section \<open>Process state and collaborators\<close>

text \<open>
  The unpickled object is opaque: the service only calls its two methods on the array
  built from the request. It is a Python object, so it carries an internal state
  (\<open>internal\<close>, of type \<open>'s\<close>) that a call may read and change; a call returns its
  outcome together with the internal state it leaves. \<open>'a\<close> is the type of numpy arrays.
  Each method either raises or returns one row per input row. An object of any other
  kind is an artifact whose calls raise; Python's \<^verbatim>\<open>None\<close> is not an artifact.
\<close>

record ('a, 's) artifact =
  internal :: 's
  model_predict_proba :: "'s \<Rightarrow> 'a \<Rightarrow> (exn + pyfloat list list) \<times> 's"
  model_predict :: "'s \<Rightarrow> 'a \<Rightarrow> (exn + int list) \<times> 's"

text \<open>The two module globals \<^verbatim>\<open>model\<close> and \<^verbatim>\<open>model_meta\<close>, both \<^verbatim>\<open>None\<close> at import.\<close>

record ('a, 's) state =
  model :: "('a, 's) artifact option"
  model_meta :: json

definition initial_state :: "('a, 's) state" where
  "initial_state = \<lparr>model = None, model_meta = JNull\<rparr>"

text \<open>
  numpy, as far as the service uses it: \<^verbatim>\<open>np.array(x, dtype=float)\<close>, which may raise on
  values it cannot convert, and the rounding of float addition.
\<close>

record 'a numpy =
  np_array :: "json \<Rightarrow> exn + 'a"
  rnd :: "real \<Rightarrow> pyfloat"

text \<open>The body of an HTTP response, and the response with its status code.\<close>

datatype message = Text string | StrOf exn

datatype body =
    HealthBody string bool json
  | FeaturesBody json json json json json
  | ScoreBody pyfloat int "pyfloat list" json
  | ErrorBody message
  | SchemaBody nat nat json
  | Unhandled exn

type_synonym response = "nat \<times> body"

section \<open>Statements and their effects\<close>

text \<open>
  A statement of a handler runs in the globals \<open>'g\<close>: it raises or yields a value, and
  leaves the globals in some state.
\<close>

type_synonym ('x, 'g) step = "'g \<Rightarrow> (exn + 'x) \<times> 'g"

text \<open>An expression that only reads: it is evaluated in the globals and leaves them alone.\<close>

definition reading :: "('g \<Rightarrow> exn + 'x) \<Rightarrow> ('x, 'g) step" where
  "reading f g = (f g, g)"

text \<open>
  Sequencing: the second statement runs in the globals the first one left; the first
  exception ends the sequence, the globals staying as they are at that point.
\<close>

definition andthen :: "('x, 'g) step \<Rightarrow> ('x \<Rightarrow> ('y, 'g) step) \<Rightarrow> ('y, 'g) step" where
  "andthen x f g =
     (case x g of (r, g') \<Rightarrow> (case r of Inl e \<Rightarrow> (Inl e, g') | Inr v \<Rightarrow> f v g'))"

text \<open>
  A method call \<^verbatim>\<open>model.method(x)\<close> on the object the global \<^verbatim>\<open>model\<close> refers to. The
  method runs on the object's internal state and may change it; the global keeps
  referring to the same object. On \<^verbatim>\<open>None\<close> the attribute lookup raises.
\<close>

definition call ::
  "(('a, 's) artifact \<Rightarrow> 's \<Rightarrow> 'a \<Rightarrow> (exn + 'r) \<times> 's) \<Rightarrow> 'a \<Rightarrow> ('r, ('a, 's) state) step" where
  "call method x g =
     (case model g of
        None \<Rightarrow> (Inl AttributeError, g)
      | Some m \<Rightarrow>
          (case method m (internal m) x of
             (r, s') \<Rightarrow> (r, g\<lparr>model := Some (m\<lparr>internal := s'\<rparr>)\<rparr>)))"

text \<open>
  The end of a handler: its body's response is sent, or the answer \<open>on_error\<close> gives for
  the exception that ended it.
\<close>

definition respond :: "(exn \<Rightarrow> response) \<Rightarrow> (response, 'g) step \<Rightarrow> 'g \<Rightarrow> response \<times> 'g" where
  "respond on_error block g =
     (case block g of
        (r, g') \<Rightarrow> (case r of Inl e \<Rightarrow> (on_error e, g') | Inr resp \<Rightarrow> (resp, g')))"


section \<open>The operations\<close>

text \<open>
  \<^verbatim>\<open>load_model\<close> (lines 24-44). The arguments are the outcomes of opening and
  deserialising the two files: \<^verbatim>\<open>pickle.load\<close> gives any object, \<^verbatim>\<open>None\<close> included,
  and \<^verbatim>\<open>json.load\<close> any JSON document. Each global is assigned as soon as its file is
  read, without a look at the value; the metadata's \<^verbatim>\<open>model_version\<close> is read for the
  log line, and any exception makes the function return \<open>False\<close> with the assignments
  made so far kept.
\<close>

definition load_model ::
  "exn + ('a, 's) artifact option \<Rightarrow> exn + json \<Rightarrow> ('a, 's) state \<Rightarrow> bool \<times> ('a, 's) state" where
  "load_model pickle_load json_load st =
     (case pickle_load of
        Inl e \<Rightarrow> (False, st)
      | Inr obj \<Rightarrow>
          (case json_load of
             Inl e \<Rightarrow> (False, st\<lparr>model := obj\<rparr>)
           | Inr j \<Rightarrow>
               (case subscript j ''model_version'' of
                  Inl e \<Rightarrow> (False, st\<lparr>model := obj, model_meta := j\<rparr>)
                | Inr v \<Rightarrow> (True, st\<lparr>model := obj, model_meta := j\<rparr>))))"

text \<open>
  The entry point (lines 110-117): the server runs only when the load succeeded, otherwise
  the process exits with status 1.
\<close>

datatype ('a, 's) process = Serving "('a, 's) state" | Exited int

definition main :: "exn + ('a, 's) artifact option \<Rightarrow> exn + json \<Rightarrow> ('a, 's) process" where
  "main pickle_load json_load =
     (case load_model pickle_load json_load initial_state of
        (True, st) \<Rightarrow> Serving st
      | (False, st) \<Rightarrow> Exited 1)"

text \<open>
  Every handler takes the globals and returns its response together with the globals as
  it leaves them. An exception that escapes a handler is answered by Flask with status
  500 (\<open>Unhandled\<close>).

  \<^verbatim>\<open>health\<close> (lines 46-52).
\<close>

definition health :: "('a, 's) state \<Rightarrow> response \<times> ('a, 's) state" where
  "health =
     respond (\<lambda>e. (500, Unhandled e))
       (andthen
          (reading (\<lambda>g. if truthy (model_meta g)
                         then py_get (model_meta g) ''model_version'' JNull
                         else Inr JNull)) (\<lambda>version.
        reading (\<lambda>g.
          Inr (200, HealthBody (if model g \<noteq> None then ''UP'' else ''DOWN'')
                      (model g \<noteq> None) version))))"

text \<open>
  The \<^verbatim>\<open>try\<close> block of \<^verbatim>\<open>predict\<close> (lines 60-92). \<open>get_json\<close> is the outcome of
  \<^verbatim>\<open>request.get_json()\<close>. \<open>SchemaBody k n names\<close> is the 400 answer
  \<^verbatim>\<open>{'error': 'Expected k features, got n', 'expected_features': names}\<close>.
\<close>

definition predict_try :: "'a numpy \<Rightarrow> exn + json \<Rightarrow> (response, ('a, 's) state) step" where
  "predict_try np get_json =
     andthen (reading (\<lambda>g. get_json)) (\<lambda>data.
     andthen (reading (\<lambda>g. py_get data ''features'' (JArr []))) (\<lambda>features.
     andthen (reading (\<lambda>g. py_len features)) (\<lambda>n.
     andthen (reading (\<lambda>g. subscript (model_meta g) ''features'')) (\<lambda>names.
     andthen (reading (\<lambda>g. py_len names)) (\<lambda>k.
       if n \<noteq> k then reading (\<lambda>g. Inr (400, SchemaBody k n names))
       else
     andthen (reading (\<lambda>g. np_array np (JArr [features]))) (\<lambda>feature_array.
     andthen (call model_predict_proba feature_array) (\<lambda>rows.
     andthen (reading (\<lambda>g. index rows 0)) (\<lambda>probabilities.
     andthen
       (if length probabilities = 2 then reading (\<lambda>g. index probabilities 1)
        else if length probabilities > 2 then
          andthen (reading (\<lambda>g. index probabilities 1)) (\<lambda>p1.
          andthen (reading (\<lambda>g. index probabilities 2)) (\<lambda>p2.
            reading (\<lambda>g. Inr (fadd (rnd np) p1 p2))))
        else reading (\<lambda>g. index probabilities 1)) (\<lambda>fraud_probability.
     andthen (call model_predict feature_array) (\<lambda>labels.
     andthen (reading (\<lambda>g. index labels 0)) (\<lambda>prediction.
     andthen (reading (\<lambda>g. subscript (model_meta g) ''model_version'')) (\<lambda>version.
       reading (\<lambda>g.
         Inr (200, ScoreBody fraud_probability prediction probabilities version))))))))))))))"

text \<open>\<^verbatim>\<open>predict\<close> (lines 54-95): the readiness check, then the block with its catch-all.\<close>

definition predict :: "'a numpy \<Rightarrow> ('a, 's) state \<Rightarrow> exn + json \<Rightarrow> response \<times> ('a, 's) state" where
  "predict np st get_json =
     (case model st of
        None \<Rightarrow> ((503, ErrorBody (Text ''Model not loaded'')), st)
      | Some m \<Rightarrow> respond (\<lambda>e. (500, ErrorBody (StrOf e))) (predict_try np get_json) st)"

text \<open>\<^verbatim>\<open>get_features\<close> (lines 97-108).\<close>

definition get_features :: "('a, 's) state \<Rightarrow> response \<times> ('a, 's) state" where
  "get_features st =
     (if model_meta st = JNull then ((503, ErrorBody (Text ''Metadata not loaded'')), st)
      else
        respond (\<lambda>e. (500, Unhandled e))
          (andthen (reading (\<lambda>g. subscript (model_meta g) ''features'')) (\<lambda>features.
           andthen (reading (\<lambda>g. subscript (model_meta g) ''model_version'')) (\<lambda>version.
           andthen (reading (\<lambda>g. py_get (model_meta g) ''block_threshold'' JNull)) (\<lambda>block_threshold.
           andthen (reading (\<lambda>g. py_get (model_meta g) ''roc_auc'' JNull)) (\<lambda>roc_auc.
           andthen (reading (\<lambda>g. py_get (model_meta g) ''pr_auc'' JNull)) (\<lambda>pr_auc.
             reading (\<lambda>g.
               Inr (200, FeaturesBody features version block_threshold roc_auc pr_auc))))))))
          st)"

section \<open>Sample collaborators\<close>

text \<open>
  Concrete collaborators for the examples: arrays are represented by the nested JSON list
  they were built from and sums are exact. One sample classifier answers every input with
  a fixed distribution and label, one raises, and one keeps a flag that it flips at every
  \<^verbatim>\<open>predict_proba\<close> call and that decides which of two distributions it returns.
\<close>

definition sample_numpy :: "json numpy" where
  "sample_numpy = \<lparr>np_array = Inr, rnd = Finite\<rparr>"

definition constant_model :: "pyfloat list \<Rightarrow> int \<Rightarrow> (json, unit) artifact" where
  "constant_model ps c =
     \<lparr>internal = (), model_predict_proba = (\<lambda>s x. (Inr [ps], s)),
      model_predict = (\<lambda>s x. (Inr [c], s))\<rparr>"



definition sample_meta :: json where
  "sample_meta = JObj [(''features'', JArr [JStr ''amount'', JStr ''hour'']),
                       (''model_version'', JStr ''v1'')]"

definition sample_state :: "(json, 's) artifact \<Rightarrow> (json, 's) state" where
  "sample_state m = \<lparr>model = Some m, model_meta = sample_meta\<rparr>"

definition sample_request :: "exn + json" where
  "sample_request = Inr (JObj [(''features'', JArr [JFloat (Finite 12.5), JInt 3])])"

section \<open>A request that passes validation\<close>

text \<open>
  A request passes validation when its body is a JSON object whose \<^verbatim>\<open>features\<close> entry
  is a list as long as the list the metadata holds under \<^verbatim>\<open>features\<close>, and numpy can
  build the one-row array from it. From there on the outcome is decided by the artifact.
\<close>

lemmas sample_defs = sample_numpy_def constant_model_def sample_meta_def
  sample_state_def sample_request_def

lemmas step_defs = andthen_def reading_def call_def respond_def

lemma valid_request_reaches_artifact:
  assumes "model_meta st = JObj mkvs"
    and "map_of mkvs ''features'' = Some (JArr names)"
    and "map_of kvs ''features'' = Some (JArr xs)"
    and "length xs = length names"
    and "np_array np (JArr [JArr xs]) = Inr arr"
  shows "predict_try np (Inr (JObj kvs)) st =
     (andthen (call model_predict_proba arr) (\<lambda>rows.
      andthen (reading (\<lambda>g. index rows 0)) (\<lambda>probabilities.
      andthen
        (if length probabilities = 2 then reading (\<lambda>g. index probabilities 1)
         else if length probabilities > 2 then
           andthen (reading (\<lambda>g. index probabilities 1)) (\<lambda>p1.
           andthen (reading (\<lambda>g. index probabilities 2)) (\<lambda>p2.
             reading (\<lambda>g. Inr (fadd (rnd np) p1 p2))))
         else reading (\<lambda>g. index probabilities 1)) (\<lambda>fraud_probability.
      andthen (call model_predict arr) (\<lambda>labels.
      andthen (reading (\<lambda>g. index labels 0)) (\<lambda>prediction.
      andthen (reading (\<lambda>g. subscript (model_meta g) ''model_version'')) (\<lambda>version.
        reading (\<lambda>g.
          Inr (200, ScoreBody fraud_probability prediction probabilities version)))))))))
     st"
  using assms by (simp add: predict_try_def andthen_def [where x = "reading f" for f] reading_def)

text \<open>
  When the artifact then returns a first row of at least two probabilities and a first
  label, and the metadata carries a \<^verbatim>\<open>model_version\<close>, the request is answered with
  status 200; the globals are as before but for the internal state the two calls left in
  the artifact.
\<close>

lemma valid_request_scores:
  assumes "model st = Some m"
    and "model_meta st = JObj mkvs"
    and "map_of mkvs ''features'' = Some (JArr names)"
    and "map_of mkvs ''model_version'' = Some version"
    and "map_of kvs ''features'' = Some (JArr xs)"
    and "length xs = length names"
    and "np_array np (JArr [JArr xs]) = Inr arr"
    and "model_predict_proba m (internal m) arr = (Inr (probabilities # rows), s1)"
    and "model_predict m s1 arr = (Inr (prediction # labels), s2)"
    and "2 \<le> length probabilities"
  shows "predict np st (Inr (JObj kvs)) =
           ((200, ScoreBody
                    (if length probabilities = 2 then probabilities ! 1
                     else fadd (rnd np) (probabilities ! 1) (probabilities ! 2))
                    prediction probabilities version),
            st\<lparr>model := Some (m\<lparr>internal := s2\<rparr>)\<rparr>)"
  using assms
  by (simp add: predict_def valid_request_reaches_artifact [OF assms(2,3,5,6,7)] step_defs index_def)

text \<open>
  Two facts about lists of non-negative reals: the entry at index 1 of a two-element
  list, and the sum of the entries at indices 1 and 2 of a longer one, lie between 0 and
  the sum of the whole list.
\<close>

lemma nonneg_tail_pair_le_sum:
  fixes ps :: "real list"
  assumes "\<forall>p\<in>set ps. 0 \<le> p" and "3 \<le> length ps"
  shows "0 \<le> ps ! 1 + ps ! 2 \<and> ps ! 1 + ps ! 2 \<le> sum_list ps"
proof -
  from assms(2) obtain a b c rest where ps: "ps = a # b # c # rest"
    by (cases ps; cases "tl ps"; cases "tl (tl ps)") auto
  have "0 \<le> sum_list rest"
    using assms(1) ps by (intro sum_list_nonneg) simp
  moreover have "0 \<le> a" "0 \<le> b" "0 \<le> c"
    using assms(1) ps by simp_all
  ultimately show ?thesis
    using ps by simp
qed

lemma nonneg_second_le_sum:
  fixes ps :: "real list"
  assumes "\<forall>p\<in>set ps. 0 \<le> p" and "length ps = 2"
  shows "0 \<le> ps ! 1 \<and> ps ! 1 \<le> sum_list ps"
proof -
  from assms(2) obtain a b where ps: "ps = [a, b]"
    by (cases ps; cases "tl ps") auto
  show ?thesis
    using assms(1) ps by simp
qed

section \<open>Fraud-probability aggregation\<close>

text \<open>
  C1. For a request that passes validation on a loaded model, when the artifact returns a
  distribution with exactly 2 entries the returned \<^verbatim>\<open>fraud_probability\<close> is
  \<^verbatim>\<open>probabilities[1]\<close>, and when it returns 3 or more entries it is the float sum
  \<^verbatim>\<open>probabilities[1] + probabilities[2]\<close>. Only the number of entries selects the
  formula; the response also carries the artifact's label, the distribution itself and
  the metadata's version. (\<open>s1\<close> and \<open>s2\<close> are the internal states the two calls leave
  in the artifact.)
\<close>

theorem fraud_probability_by_cardinality:
  assumes "model st = Some m"
    and "model_meta st = JObj mkvs"
    and "map_of mkvs ''features'' = Some (JArr names)"
    and "map_of mkvs ''model_version'' = Some version"
    and "map_of kvs ''features'' = Some (JArr xs)"
    and "length xs = length names"
    and "np_array np (JArr [JArr xs]) = Inr arr"
    and "model_predict_proba m (internal m) arr = (Inr (probabilities # rows), s1)"
    and "model_predict m s1 arr = (Inr (prediction # labels), s2)"
  shows "(length probabilities = 2 \<longrightarrow>
            fst (predict np st (Inr (JObj kvs)))
              = (200, ScoreBody (probabilities ! 1) prediction probabilities version)) \<and>
         (3 \<le> length probabilities \<longrightarrow>
            fst (predict np st (Inr (JObj kvs)))
              = (200, ScoreBody (fadd (rnd np) (probabilities ! 1) (probabilities ! 2))
                        prediction probabilities version))"
  using assms valid_request_scores [OF assms(1-9)] by simp

text \<open>
  The two examples of the specification: \<open>[0.9, 0.1]\<close> gives 0.1 and
  \<open>[0.7, 0.2, 0.1]\<close> gives 0.3 (with exact sums).
\<close>

theorem fraud_probability_by_cardinality_witness:
  "fst (predict sample_numpy (sample_state (constant_model [Finite 0.9, Finite 0.1] 1))
          sample_request)
     = (200, ScoreBody (Finite 0.1) 1 [Finite 0.9, Finite 0.1] (JStr ''v1'')) \<and>
   fst (predict sample_numpy (sample_state (constant_model [Finite 0.7, Finite 0.2, Finite 0.1] 0))
          sample_request)
     = (200, ScoreBody (Finite 0.3) 0 [Finite 0.7, Finite 0.2, Finite 0.1] (JStr ''v1''))"
  using
    fraud_probability_by_cardinality [where st = "sample_state (constant_model [Finite 0.9, Finite 0.1] 1)"
      and m = "constant_model [Finite 0.9, Finite 0.1] 1" and np = sample_numpy
      and mkvs = "[(''features'', JArr [JStr ''amount'', JStr ''hour'']), (''model_version'', JStr ''v1'')]"
      and names = "[JStr ''amount'', JStr ''hour'']" and version = "JStr ''v1''"
      and kvs = "[(''features'', JArr [JFloat (Finite 12.5), JInt 3])]"
      and xs = "[JFloat (Finite 12.5), JInt 3]"
      and arr = "JArr [JArr [JFloat (Finite 12.5), JInt 3]]"
      and probabilities = "[Finite 0.9, Finite 0.1]" and rows = "[]"
      and prediction = 1 and labels = "[]" and ?s1.0 = "()" and ?s2.0 = "()"]
    fraud_probability_by_cardinality [where st = "sample_state (constant_model [Finite 0.7, Finite 0.2, Finite 0.1] 0)"
      and m = "constant_model [Finite 0.7, Finite 0.2, Finite 0.1] 0" and np = sample_numpy
      and mkvs = "[(''features'', JArr [JStr ''amount'', JStr ''hour'']), (''model_version'', JStr ''v1'')]"
      and names = "[JStr ''amount'', JStr ''hour'']" and version = "JStr ''v1''"
      and kvs = "[(''features'', JArr [JFloat (Finite 12.5), JInt 3])]"
      and xs = "[JFloat (Finite 12.5), JInt 3]"
      and arr = "JArr [JArr [JFloat (Finite 12.5), JInt 3]]"
      and probabilities = "[Finite 0.7, Finite 0.2, Finite 0.1]" and rows = "[]"
      and prediction = 0 and labels = "[]" and ?s1.0 = "()" and ?s2.0 = "()"]
  by (simp add: sample_defs)

text \<open>
  C5. For a request that passes validation on a loaded model, when the artifact returns
  at least 2 finite, non-negative probabilities whose sum is 1, the response is a success
  whose \<^verbatim>\<open>fraud_probability\<close> is a finite number in \<open>[0, 1]\<close> and whose
  \<^verbatim>\<open>probabilities\<close> are finite and sum to 1. The rounding of float addition is
  only required to keep a sum that lies in \<open>[0, 1]\<close> inside \<open>[0, 1]\<close>, as rounding to
  nearest does (0 and 1 are floats).
\<close>

theorem distribution_gives_probability:
  assumes "model st = Some m"
    and "model_meta st = JObj mkvs"
    and "map_of mkvs ''features'' = Some (JArr names)"
    and "map_of mkvs ''model_version'' = Some version"
    and "map_of kvs ''features'' = Some (JArr xs)"
    and "length xs = length names"
    and "np_array np (JArr [JArr xs]) = Inr arr"
    and "model_predict_proba m (internal m) arr = (Inr (map Finite ps # rows), s1)"
    and "model_predict m s1 arr = (Inr (prediction # labels), s2)"
    and "2 \<le> length ps"
    and "\<forall>p\<in>set ps. 0 \<le> p"
    and "sum_list ps = 1"
    and "\<forall>x. 0 \<le> x \<and> x \<le> 1 \<longrightarrow> (\<exists>y. rnd np x = Finite y \<and> 0 \<le> y \<and> y \<le> 1)"
  shows "\<exists>f qs. fst (predict np st (Inr (JObj kvs)))
                   = (200, ScoreBody (Finite f) prediction (map Finite qs) version) \<and>
                 0 \<le> f \<and> f \<le> 1 \<and> sum_list qs = 1"
proof -
  have len: "2 \<le> length (map Finite ps)"
    using assms(10) by simp
  note scored = valid_request_scores [OF assms(1-9) len]
  show ?thesis
  proof (cases "length ps = 2")
    case True
    then have "fst (predict np st (Inr (JObj kvs)))
            = (200, ScoreBody (Finite (ps ! 1)) prediction (map Finite ps) version)"
      using scored by simp
    moreover have "0 \<le> ps ! 1 \<and> ps ! 1 \<le> 1"
      using nonneg_second_le_sum [OF assms(11) True] assms(12) by simp
    ultimately show ?thesis
      using assms(12) by blast
  next
    case False
    then have three: "3 \<le> length ps"
      using assms(10) by simp
    have bounds: "0 \<le> ps ! 1 + ps ! 2 \<and> ps ! 1 + ps ! 2 \<le> 1"
      using nonneg_tail_pair_le_sum [OF assms(11) three] assms(12) by simp
    then obtain y where y: "rnd np (ps ! 1 + ps ! 2) = Finite y" "0 \<le> y" "y \<le> 1"
      using assms(13) by blast
    have "fst (predict np st (Inr (JObj kvs)))
            = (200, ScoreBody (Finite y) prediction (map Finite ps) version)"
      using scored False three y(1) by simp
    then show ?thesis
      using y(2,3) assms(12) by blast
  qed
qed

theorem distribution_gives_probability_witness:
  "\<exists>f qs.
     fst (predict sample_numpy (sample_state (constant_model (map Finite [1/2, 1/4, 1/4]) 0))
            sample_request)
       = (200, ScoreBody (Finite f) 0 (map Finite qs) (JStr ''v1'')) \<and>
     0 \<le> f \<and> f \<le> 1 \<and> sum_list qs = 1"
  using
    distribution_gives_probability [where st = "sample_state (constant_model (map Finite [1/2, 1/4, 1/4]) 0)"
      and m = "constant_model (map Finite [1/2, 1/4, 1/4]) 0" and np = sample_numpy
      and mkvs = "[(''features'', JArr [JStr ''amount'', JStr ''hour'']), (''model_version'', JStr ''v1'')]"
      and names = "[JStr ''amount'', JStr ''hour'']" and version = "JStr ''v1''"
      and kvs = "[(''features'', JArr [JFloat (Finite 12.5), JInt 3])]"
      and xs = "[JFloat (Finite 12.5), JInt 3]"
      and arr = "JArr [JArr [JFloat (Finite 12.5), JInt 3]]"
      and ps = "[1/2, 1/4, 1/4]" and rows = "[]"
      and prediction = 0 and labels = "[]" and ?s1.0 = "()" and ?s2.0 = "()"]
  by (simp add: sample_defs)

section \<open>Non-finite output\<close>

text \<open>
  C2, as the code has it. The handler never inspects the values the artifact returns.
  For a request that passes validation, when the artifact's distribution (of at least 2
  entries) contains a non-finite value, the response is a success with status 200 whose
  \<^verbatim>\<open>probabilities\<close> are the artifact's output unchanged, the non-finite entry
  included.
\<close>

theorem nonfinite_output_is_returned:
  assumes "model st = Some m"
    and "model_meta st = JObj mkvs"
    and "map_of mkvs ''features'' = Some (JArr names)"
    and "map_of mkvs ''model_version'' = Some version"
    and "map_of kvs ''features'' = Some (JArr xs)"
    and "length xs = length names"
    and "np_array np (JArr [JArr xs]) = Inr arr"
    and "model_predict_proba m (internal m) arr = (Inr (probabilities # rows), s1)"
    and "model_predict m s1 arr = (Inr (prediction # labels), s2)"
    and "2 \<le> length probabilities"
    and "\<exists>p\<in>set probabilities. \<not> isfinite p"
  shows "\<exists>fp ps. fst (predict np st (Inr (JObj kvs))) = (200, ScoreBody fp prediction ps version) \<and>
                  ps = probabilities \<and> (\<exists>p\<in>set ps. \<not> isfinite p)"
  using valid_request_scores [OF assms(1-10)] assms(11) by simp

theorem nonfinite_output_is_returned_witness:
  "\<exists>fp ps.
     fst (predict sample_numpy (sample_state (constant_model [Finite (1/2), PosInf] 1))
            sample_request)
       = (200, ScoreBody fp 1 ps (JStr ''v1'')) \<and>
     ps = [Finite (1/2), PosInf] \<and> (\<exists>p\<in>set ps. \<not> isfinite p)"
  using
    nonfinite_output_is_returned [where st = "sample_state (constant_model [Finite (1/2), PosInf] 1)"
      and m = "constant_model [Finite (1/2), PosInf] 1" and np = sample_numpy
      and mkvs = "[(''features'', JArr [JStr ''amount'', JStr ''hour'']), (''model_version'', JStr ''v1'')]"
      and names = "[JStr ''amount'', JStr ''hour'']" and version = "JStr ''v1''"
      and kvs = "[(''features'', JArr [JFloat (Finite 12.5), JInt 3])]"
      and xs = "[JFloat (Finite 12.5), JInt 3]"
      and arr = "JArr [JArr [JFloat (Finite 12.5), JInt 3]]"
      and probabilities = "[Finite (1/2), PosInf]" and rows = "[]"
      and prediction = 1 and labels = "[]" and ?s1.0 = "()" and ?s2.0 = "()"]
  by (simp add: sample_defs)

text \<open>
  The claim as written (a non-finite output fails with InvalidPrediction and never
  reaches a success response) does not hold: a distribution \<open>[0.5, NaN]\<close> is answered
  with status 200 and \<^verbatim>\<open>fraud_probability\<close> NaN.
\<close>

theorem nan_is_returned_counterexample:
  "fst (predict sample_numpy (sample_state (constant_model [Finite (1/2), NaN] 1)) sample_request)
     = (200, ScoreBody NaN 1 [Finite (1/2), NaN] (JStr ''v1'')) \<and>
   \<not> isfinite NaN"
  by (simp add: sample_defs predict_def predict_try_def step_defs index_def)

section \<open>Request validation\<close>

text \<open>
  C3, as the code has it. \<^verbatim>\<open>data.get('features', [])\<close> turns a missing entry into the
  empty vector. So for a loaded model whose metadata declares a non-empty feature list, a
  body that is a JSON object without a \<^verbatim>\<open>features\<close> entry gets the schema-mismatch
  answer (status 400, "Expected k features, got 0", with the declared list), and is
  answered exactly as the same body with \<^verbatim>\<open>features: []\<close> added.
\<close>

theorem missing_features_is_empty_vector:
  assumes "model st = Some m"
    and "model_meta st = JObj mkvs"
    and "map_of mkvs ''features'' = Some (JArr names)"
    and "names \<noteq> []"
    and "map_of kvs ''features'' = None"
  shows "fst (predict np st (Inr (JObj kvs))) = (400, SchemaBody (length names) 0 (JArr names)) \<and>
         predict np st (Inr (JObj kvs)) = predict np st (Inr (JObj ((''features'', JArr []) # kvs)))"
  using assms by (simp add: predict_def predict_try_def step_defs)

theorem missing_features_is_empty_vector_witness:
  "fst (predict sample_numpy (sample_state (constant_model [Finite 0.9, Finite 0.1] 1))
          (Inr (JObj [(''amount'', JInt 5)])))
     = (400, SchemaBody (length [JStr ''amount'', JStr ''hour'']) 0
               (JArr [JStr ''amount'', JStr ''hour''])) \<and>
   predict sample_numpy (sample_state (constant_model [Finite 0.9, Finite 0.1] 1))
     (Inr (JObj [(''amount'', JInt 5)]))
     = predict sample_numpy (sample_state (constant_model [Finite 0.9, Finite 0.1] 1))
         (Inr (JObj [(''features'', JArr []), (''amount'', JInt 5)]))"
  by (rule missing_features_is_empty_vector [where m = "constant_model [Finite 0.9, Finite 0.1] 1"
      and mkvs = "[(''features'', JArr [JStr ''amount'', JStr ''hour'']), (''model_version'', JStr ''v1'')]"])
    (simp_all add: sample_defs)

text \<open>
  The claim as written (a failure distinct from SchemaMismatch) does not hold: the empty
  object and the object with an explicit empty vector receive the same schema-mismatch
  response.
\<close>

theorem missing_features_counterexample:
  "fst (predict sample_numpy (sample_state (constant_model [Finite 0.9, Finite 0.1] 1))
          (Inr (JObj [])))
     = (400, SchemaBody 2 0 (JArr [JStr ''amount'', JStr ''hour''])) \<and>
   fst (predict sample_numpy (sample_state (constant_model [Finite 0.9, Finite 0.1] 1))
          (Inr (JObj [(''features'', JArr [])])))
     = (400, SchemaBody 2 0 (JArr [JStr ''amount'', JStr ''hour'']))"
  by (simp add: sample_defs predict_def predict_try_def step_defs)

text \<open>
  C4. For a loaded model, a request whose feature vector has a length different from that
  of the metadata's feature list is answered with status 400, and the payload's
  \<^verbatim>\<open>expected_features\<close> is the metadata's feature list itself (the message
  carries both lengths).
\<close>

theorem wrong_length_is_schema_mismatch:
  assumes "model st = Some m"
    and "model_meta st = JObj mkvs"
    and "map_of mkvs ''features'' = Some (JArr names)"
    and "map_of kvs ''features'' = Some (JArr xs)"
    and "length xs \<noteq> length names"
  shows "fst (predict np st (Inr (JObj kvs)))
           = (400, SchemaBody (length names) (length xs) (JArr names))"
  using assms by (simp add: predict_def predict_try_def step_defs)

theorem wrong_length_is_schema_mismatch_witness:
  "fst (predict sample_numpy (sample_state (constant_model [Finite 0.9, Finite 0.1] 1))
          (Inr (JObj [(''features'', JArr [JInt 1, JInt 2, JInt 3])])))
     = (400, SchemaBody (length [JStr ''amount'', JStr ''hour'']) (length [JInt 1, JInt 2, JInt 3])
               (JArr [JStr ''amount'', JStr ''hour'']))"
  using
    wrong_length_is_schema_mismatch [where st = "sample_state (constant_model [Finite 0.9, Finite 0.1] 1)"
      and m = "constant_model [Finite 0.9, Finite 0.1] 1" and np = sample_numpy
      and mkvs = "[(''features'', JArr [JStr ''amount'', JStr ''hour'']), (''model_version'', JStr ''v1'')]"
      and names = "[JStr ''amount'', JStr ''hour'']"
      and kvs = "[(''features'', JArr [JInt 1, JInt 2, JInt 3])]"
      and xs = "[JInt 1, JInt 2, JInt 3]"]
  by (simp add: sample_defs)

section \<open>Health\<close>

text \<open>
  A load that returns \<open>False\<close> may already have assigned one or both globals, but the
  entry point then exits instead of serving.
\<close>

lemma failed_load_is_not_served:
  "load_model pickle_load json_load initial_state = (False, st) \<Longrightarrow>
     main pickle_load json_load = Exited 1"
  by (simp add: main_def)

text \<open>
  C6, as the code has it. The health operation answers 200 in every state the service
  serves from. Before any load it reports status "DOWN", \<^verbatim>\<open>model_loaded\<close> false and a
  null version. After a load that returned \<open>True\<close> (from any previous state), and so
  in every state the entry point serves from, it reports the value the loaded metadata
  holds under \<^verbatim>\<open>model_version\<close>, with status "UP" and \<^verbatim>\<open>model_loaded\<close> true when
  the unpickled object is not \<^verbatim>\<open>None\<close>, and with status "DOWN" and
  \<^verbatim>\<open>model_loaded\<close> false when the pickle holds \<^verbatim>\<open>None\<close>: the load does not look at
  the object it assigns.
\<close>

theorem health_reports_load_state:
  "fst (health (initial_state :: ('a, 's) state)) = (200, HealthBody ''DOWN'' False JNull) \<and>
   (load_model pickle_load json_load (st0 :: ('a, 's) state) = (True, st) \<longrightarrow>
      (\<exists>obj v. pickle_load = Inr obj \<and> subscript (model_meta st) ''model_version'' = Inr v \<and>
         fst (health st)
           = (200, HealthBody (if obj = None then ''DOWN'' else ''UP'') (obj \<noteq> None) v))) \<and>
   (main pickle_load json_load = Serving st \<longrightarrow>
      (\<exists>obj v. pickle_load = Inr obj \<and> subscript (model_meta st) ''model_version'' = Inr v \<and>
         fst (health st)
           = (200, HealthBody (if obj = None then ''DOWN'' else ''UP'') (obj \<noteq> None) v)))"
proof -
  have loaded: "\<exists>obj v. pickle_load = Inr obj \<and> subscript (model_meta s) ''model_version'' = Inr v \<and>
      fst (health s) = (200, HealthBody (if obj = None then ''DOWN'' else ''UP'') (obj \<noteq> None) v)"
    if "load_model pickle_load json_load s0 = (True, s)" for s0 s :: "('a, 's) state"
  proof -
    from that obtain obj j v where p: "pickle_load = Inr obj" and "json_load = Inr j"
      and v: "subscript j ''model_version'' = Inr v"
      and s: "s = s0\<lparr>model := obj, model_meta := j\<rparr>"
      by (auto simp: load_model_def split: sum.splits)
    from v obtain kvs where j: "j = JObj kvs" and kv: "map_of kvs ''model_version'' = Some v"
      by (cases j) (auto split: option.splits)
    from kv have "kvs \<noteq> []" by auto
    then have "fst (health s)
        = (200, HealthBody (if obj = None then ''DOWN'' else ''UP'') (obj \<noteq> None) v)"
      using s j kv by (simp add: health_def step_defs)
    then show ?thesis
      using p v s by simp
  qed
  have "fst (health (initial_state :: ('a, 's) state)) = (200, HealthBody ''DOWN'' False JNull)"
    by (simp add: health_def step_defs initial_state_def)
  moreover have "main pickle_load json_load = Serving st \<longrightarrow>
      load_model pickle_load json_load (initial_state :: ('a, 's) state) = (True, st)"
    by (auto simp: main_def split: prod.splits bool.splits)
  ultimately show ?thesis
    using loaded by blast
qed

theorem health_reports_load_state_witness:
  "fst (health (initial_state :: (json, unit) state)) = (200, HealthBody ''DOWN'' False JNull) \<and>
   load_model (Inr (Some (constant_model [Finite 0.9, Finite 0.1] 1))) (Inr sample_meta) initial_state
     = (True, sample_state (constant_model [Finite 0.9, Finite 0.1] 1)) \<and>
   main (Inr (Some (constant_model [Finite 0.9, Finite 0.1] 1))) (Inr sample_meta)
     = Serving (sample_state (constant_model [Finite 0.9, Finite 0.1] 1)) \<and>
   subscript (model_meta (sample_state (constant_model [Finite 0.9, Finite 0.1] 1)))
     ''model_version'' = Inr (JStr ''v1'') \<and>
   fst (health (sample_state (constant_model [Finite 0.9, Finite 0.1] 1)))
     = (200, HealthBody ''UP'' True (JStr ''v1''))"
proof -
  have l: "load_model (Inr (Some (constant_model [Finite 0.9, Finite 0.1] 1))) (Inr sample_meta)
             initial_state
     = (True, sample_state (constant_model [Finite 0.9, Finite 0.1] 1))"
    by (simp add: load_model_def sample_defs initial_state_def)
  then have m: "main (Inr (Some (constant_model [Finite 0.9, Finite 0.1] 1))) (Inr sample_meta)
     = Serving (sample_state (constant_model [Finite 0.9, Finite 0.1] 1))"
    by (simp add: main_def)
  have v: "subscript (model_meta (sample_state (constant_model [Finite 0.9, Finite 0.1] 1)))
     ''model_version'' = Inr (JStr ''v1'')"
    by (simp add: sample_defs)
  show ?thesis
    using l m v
      health_reports_load_state [of "Inr (Some (constant_model [Finite 0.9, Finite 0.1] 1))"
        "Inr sample_meta" initial_state "sample_state (constant_model [Finite 0.9, Finite 0.1] 1)"]
    by auto
qed

text \<open>
  The claim as written (after a successful load the status is "UP" and
  \<^verbatim>\<open>model_loaded\<close> is true) does not hold for a pickle that holds \<^verbatim>\<open>None\<close>: the load
  returns \<open>True\<close>, the entry point serves, and health reports "DOWN" and false.
\<close>

theorem pickled_none_counterexample:
  "load_model (Inr None) (Inr sample_meta) (initial_state :: (json, unit) state)
     = (True, \<lparr>model = None, model_meta = sample_meta\<rparr>) \<and>
   main (Inr None) (Inr sample_meta)
     = Serving (\<lparr>model = None, model_meta = sample_meta\<rparr> :: (json, unit) state) \<and>
   fst (health (\<lparr>model = None, model_meta = sample_meta\<rparr> :: (json, unit) state))
     = (200, HealthBody ''DOWN'' False (JStr ''v1''))"
  by (simp add: load_model_def main_def initial_state_def sample_meta_def health_def step_defs)

section \<open>Readiness\<close>

text \<open>
  C7. In every state where the model is not loaded, scoring answers 503 with the message
  "Model not loaded", whatever the request; and in every state where the metadata is not
  loaded, the feature-schema operation answers 503 with "Metadata not loaded" instead of
  a schema.
\<close>

theorem not_ready_when_unloaded:
  "(model st = None \<longrightarrow>
      fst (predict np st get_json) = (503, ErrorBody (Text ''Model not loaded''))) \<and>
   (model_meta st = JNull \<longrightarrow>
      fst (get_features st) = (503, ErrorBody (Text ''Metadata not loaded'')))"
  by (simp add: predict_def get_features_def)

theorem not_ready_when_unloaded_witness:
  "model (initial_state :: (json, unit) state) = None \<and>
   fst (predict sample_numpy (initial_state :: (json, unit) state) sample_request)
     = (503, ErrorBody (Text ''Model not loaded'')) \<and>
   model_meta (initial_state :: (json, unit) state) = JNull \<and>
   fst (get_features (initial_state :: (json, unit) state))
     = (503, ErrorBody (Text ''Metadata not loaded''))"
  using not_ready_when_unloaded [of "initial_state :: (json, unit) state" sample_numpy sample_request]
  by (simp add: initial_state_def)

section \<open>Exceptions from the artifact\<close>






text \<open>
  C10. For a request that passes validation on a loaded model, when the artifact returns
  a distribution with fewer than 2 entries, reading \<^verbatim>\<open>probabilities[1]\<close> raises
  IndexError and the request is answered by the catch-all path: status 500 with that
  exception's text. It is neither a success nor a dedicated error for the unsupported
  shape.
\<close>

theorem short_distribution_is_server_error:
  assumes "model st = Some m"
    and "model_meta st = JObj mkvs"
    and "map_of mkvs ''features'' = Some (JArr names)"
    and "map_of kvs ''features'' = Some (JArr xs)"
    and "length xs = length names"
    and "np_array np (JArr [JArr xs]) = Inr arr"
    and "model_predict_proba m (internal m) arr = (Inr (probabilities # rows), s1)"
    and "length probabilities < 2"
  shows "fst (predict np st (Inr (JObj kvs))) = (500, ErrorBody (StrOf IndexError))"
proof -
  have "predict_try np (Inr (JObj kvs)) st
          = (Inl IndexError, st\<lparr>model := Some (m\<lparr>internal := s1\<rparr>)\<rparr>)"
    using assms(1,7,8) valid_request_reaches_artifact [OF assms(2-6)]
    by (simp add: step_defs index_def)
  then show ?thesis
    using assms(1) by (simp add: predict_def respond_def)
qed

theorem short_distribution_is_server_error_witness:
  "fst (predict sample_numpy (sample_state (constant_model [Finite 1] 0)) sample_request)
     = (500, ErrorBody (StrOf IndexError)) \<and>
   fst (predict sample_numpy (sample_state (constant_model [] 0)) sample_request)
     = (500, ErrorBody (StrOf IndexError))"
proof
  show "fst (predict sample_numpy (sample_state (constant_model [Finite 1] 0)) sample_request)
     = (500, ErrorBody (StrOf IndexError))"
    unfolding sample_request_def
    by (rule short_distribution_is_server_error [where m = "constant_model [Finite 1] 0"
        and mkvs = "[(''features'', JArr [JStr ''amount'', JStr ''hour'']), (''model_version'', JStr ''v1'')]"
        and names = "[JStr ''amount'', JStr ''hour'']" and xs = "[JFloat (Finite 12.5), JInt 3]"
        and arr = "JArr [JArr [JFloat (Finite 12.5), JInt 3]]"
        and probabilities = "[Finite 1]" and rows = "[]" and ?s1.0 = "()"])
      (simp_all add: sample_defs)
  show "fst (predict sample_numpy (sample_state (constant_model [] 0)) sample_request)
     = (500, ErrorBody (StrOf IndexError))"
    unfolding sample_request_def
    by (rule short_distribution_is_server_error [where m = "constant_model [] 0"
        and mkvs = "[(''features'', JArr [JStr ''amount'', JStr ''hour'']), (''model_version'', JStr ''v1'')]"
        and names = "[JStr ''amount'', JStr ''hour'']" and xs = "[JFloat (Finite 12.5), JInt 3]"
        and arr = "JArr [JArr [JFloat (Finite 12.5), JInt 3]]"
        and probabilities = "[]" and rows = "[]" and ?s1.0 = "()"])
      (simp_all add: sample_defs)
qed

section \<open>What the operations change\<close>
















end
